theory Spec2Isabelle
  imports Complex_Main "HOL-Library.Word"
begin

section \<open>The command framework of mongo/db/commands.h\<close>

text \<open>
  A shallow embedding of the parts of \<^verbatim>\<open>src/mongo/db/commands.h\<close> that carry behaviour:
  the default bodies of the virtual members of \<^verbatim>\<open>Command\<close>, \<^verbatim>\<open>CommandInvocation\<close>,
  \<^verbatim>\<open>BasicCommandWithReplyBuilderInterface\<close> and \<^verbatim>\<open>TypedCommand::InvocationBase\<close>.

  \<^item> A class is a record. A pure virtual member is a field holding the subclass's body. A
    virtual member with a default body is a field holding \<open>None\<close> (the subclass does not
    override it) or \<open>Some f\<close> (it overrides it with \<open>f\<close>); the base body is a definition named
    after the C++ member (\<open>CommandInvocation_runAsync\<close>), and a definition named after the
    member alone (\<open>runAsync\<close>) is the virtual call.
  \<^item> A member that mutates what it is handed returns the new values: the operation
    context is a value of an arbitrary type \<open>'c\<close>, a reply builder is the list of the fields
    appended to its body so far.
  \<^item> A C++ exception is the outcome \<open>Threw\<close>, a process abort (\<^verbatim>\<open>MONGO_UNREACHABLE\<close>,
    \<^verbatim>\<open>invariant\<close>) is the outcome \<open>Aborted\<close>.
\<close>

subsection \<open>Status, outcomes, BSON\<close>

text \<open>
  Modelled from the spec: \<^verbatim>\<open>ErrorCodes::Error\<close> and \<^verbatim>\<open>Status\<close>, declared in
  error_codes.h and status.h, which are not among the sources: the codes that commands.h and
  the error taxonomy of the spec name, and a status as a code with a message.
\<close>

datatype ErrorCode =
    OK
  | IllegalOperation
  | InvalidOptions
  | Unauthorized
  | FailedToParse
  | FailedToRunWithReplyBuilder
  | InternalError

datatype Status = Status (code: ErrorCode) (reason: string)

definition Status_OK :: Status where
  "Status_OK = Status OK []"

definition isOK :: "Status \<Rightarrow> bool" where
  "isOK s = (code s = OK)"

datatype 'a outcome = Returned 'a | Threw Status | Aborted

text \<open>
  \<^verbatim>\<open>uasserted(code, msg)\<close> throws an exception that carries \<^verbatim>\<open>Status(code, msg)\<close>.
\<close>

definition uasserted :: "ErrorCode \<Rightarrow> string \<Rightarrow> 'a outcome" where
  "uasserted c msg = Threw (Status c msg)"

text \<open>
  Modelled from the spec: \<^verbatim>\<open>BSONObj\<close> and \<^verbatim>\<open>BSONObjBuilder\<close>, declared in jsobj.h, which
  is not among the sources: the "structured document" of a request or a reply, as far as
  the reply of a command needs it. An object under construction is the list of the fields
  appended so far, in order.
\<close>

datatype BSONValue =
    BSONDouble real
  | BSONInt int
  | BSONLong int
  | BSONBool bool
  | BSONNull
  | BSONUndefined
  | BSONString string
  | BSONObject "(string \<times> BSONValue) list"

type_synonym BSONObj = "(string \<times> BSONValue) list"

text \<open>
  Modelled from the spec: \<^verbatim>\<open>rpc::ReplyBuilderInterface\<close>, declared in
  reply_builder_interface.h, which is not among the sources: "a reply populated through a
  builder abstraction", as the body of the reply under construction.
\<close>

type_synonym ReplyBuilder = BSONObj

subsection \<open>Command\<close>

text \<open>
  The data members of \<^verbatim>\<open>Command\<close>. The two counters are \<^verbatim>\<open>mutable\<close>: a \<^verbatim>\<open>const\<close>
  member may change them, so a \<^verbatim>\<open>const\<close> member is modelled as a function that returns the
  members again.
\<close>

record Command_members =
  cmd_name :: string
  cmd_aliases :: "string list"
  commandsExecuted :: "64 word"
  commandsFailed :: "64 word"

type_synonym 'a const_member = "Command_members \<Rightarrow> 'a \<times> Command_members"

record Command =
  members :: Command_members
  adminOnly_override :: "bool const_member option"
  requiresAuth_override :: "bool const_member option"
  maintenanceOk_override :: "bool const_member option"

definition getName :: "'a Command_scheme \<Rightarrow> string" where
  "getName this = cmd_name (members this)"

text \<open>The default bodies: \<^verbatim>\<open>return false;\<close>, \<^verbatim>\<open>return true;\<close>, \<^verbatim>\<open>return true;\<close>.\<close>

definition Command_adminOnly :: "bool const_member" where
  "Command_adminOnly this = (False, this)"

definition Command_requiresAuth :: "bool const_member" where
  "Command_requiresAuth this = (True, this)"

definition Command_maintenanceOk :: "bool const_member" where
  "Command_maintenanceOk this = (True, this)"

text \<open>\<^verbatim>\<open>incrementCommandsExecuted\<close>, a \<^verbatim>\<open>const\<close> member that does change the object.\<close>

definition incrementCommandsExecuted :: "unit const_member" where
  "incrementCommandsExecuted this = ((), this\<lparr>commandsExecuted := commandsExecuted this + 1\<rparr>)"

definition incrementCommandsFailed :: "unit const_member" where
  "incrementCommandsFailed this = ((), this\<lparr>commandsFailed := commandsFailed this + 1\<rparr>)"

text \<open>
  A virtual call on a command: the override when there is one, the base body otherwise; the
  members it returns are stored back.
\<close>

definition virtual_call :: "Command \<Rightarrow> 'a const_member option \<Rightarrow> 'a const_member \<Rightarrow> 'a \<times> Command" where
  "virtual_call this ovr base =
     (case (case ovr of None \<Rightarrow> base | Some f \<Rightarrow> f) (members this) of
        (r, m) \<Rightarrow> (r, this\<lparr>members := m\<rparr>))"

definition adminOnly :: "Command \<Rightarrow> bool \<times> Command" where
  "adminOnly this = virtual_call this (adminOnly_override this) Command_adminOnly"

definition requiresAuth :: "Command \<Rightarrow> bool \<times> Command" where
  "requiresAuth this = virtual_call this (requiresAuth_override this) Command_requiresAuth"

definition maintenanceOk :: "Command \<Rightarrow> bool \<times> Command" where
  "maintenanceOk this = virtual_call this (maintenanceOk_override this) Command_maintenanceOk"

text \<open>
  A caller that evaluates a sequence of capability queries on one command, one after the
  other, collecting the answers.
\<close>

datatype CapabilityQuery = AdminOnly | RequiresAuth | MaintenanceOk

fun capability :: "CapabilityQuery \<Rightarrow> Command \<Rightarrow> bool \<times> Command" where
  "capability AdminOnly this = adminOnly this"
| "capability RequiresAuth this = requiresAuth this"
| "capability MaintenanceOk this = maintenanceOk this"

fun capabilities :: "CapabilityQuery list \<Rightarrow> Command \<Rightarrow> bool list \<times> Command" where
  "capabilities [] this = ([], this)"
| "capabilities (q # qs) this =
     (case capability q this of
        (b, this') \<Rightarrow> (case capabilities qs this' of (bs, this'') \<Rightarrow> (b # bs, this'')))"

fun conservative_default :: "CapabilityQuery \<Rightarrow> bool" where
  "conservative_default AdminOnly = False"
| "conservative_default RequiresAuth = True"
| "conservative_default MaintenanceOk = True"

definition plainCommand :: "string \<Rightarrow> Command" where
  "plainCommand n =
     \<lparr> members = \<lparr> cmd_name = n, cmd_aliases = [], commandsExecuted = 0, commandsFailed = 0 \<rparr>,
       adminOnly_override = None,
       requiresAuth_override = None,
       maintenanceOk_override = None \<rparr>"

subsection \<open>Requests and futures\<close>

text \<open>
  Modelled from the spec: \<^verbatim>\<open>OpMsgRequest\<close> and \<^verbatim>\<open>RequestExecutionContext\<close>, declared in
  op_msg.h and request_execution_context.h, which are not among the sources. They are
  modelled by the members commands.h reads: the body of the request ("operation body as a
  structured document"), and the four getters of the execution context. A member that
  mutates the objects behind the context returns the context with the new operation context
  and reply builder.
\<close>

record OpMsgRequest =
  body :: BSONObj

record 'c RequestExecutionContext =
  getOpCtx :: 'c
  getRequest :: OpMsgRequest
  getReplyBuilder :: ReplyBuilder
  getCommand :: Command

text \<open>
  Modelled from the spec: \<^verbatim>\<open>Future<void>\<close>, declared in future.h, which is not among the
  sources: "a future-like handle for eventual completion". A future built from a
  \<^verbatim>\<open>Status\<close> is ready with that status; \<open>Pending\<close> is a future that an executor still has
  to complete, which only an override of \<^verbatim>\<open>runAsync\<close> can return.
\<close>

datatype FutureVoid = Ready Status | Pending

subsection \<open>Read concern support\<close>

text \<open>
  Modelled from the spec: \<^verbatim>\<open>repl::ReadConcernLevel\<close> and \<^verbatim>\<open>ReadConcernSupportResult\<close>,
  declared in read_concern_args.h and read_concern_support_result.h, which are not among
  the sources; commands.h names only \<^verbatim>\<open>kLocalReadConcern\<close>. The value type ConcernSupport,
  "level \<rightarrow> (supported: bool, reasonIfNot), defaultPermitted: (bool, reasonIfNot)", is two
  statuses, each OK when the answer is yes and the reason otherwise. The braces
  \<^verbatim>\<open>{condition, status}\<close> of commands.h build a status that is \<^verbatim>\<open>status\<close> when the
  condition holds and OK otherwise; the braces \<^verbatim>\<open>{status}\<close> build \<^verbatim>\<open>status\<close>.
\<close>

datatype ReadConcernLevel =
    kLocalReadConcern
  | kMajorityReadConcern
  | kLinearizableReadConcern
  | kAvailableReadConcern
  | kSnapshotReadConcern

record ReadConcernSupportResult =
  readConcernSupport :: Status
  defaultReadConcernPermit :: Status

definition ConditionalStatus :: "bool \<Rightarrow> Status \<Rightarrow> Status" where
  "ConditionalStatus condition status = (if condition then status else Status_OK)"

definition kReadConcernNotSupported :: Status where
  "kReadConcernNotSupported = Status InvalidOptions ''read concern not supported''"

definition kDefaultReadConcernNotPermitted :: Status where
  "kDefaultReadConcernNotPermitted = Status InvalidOptions ''default read concern not permitted''"

subsection \<open>CommandInvocation\<close>

text \<open>
  Modelled from the spec: \<^verbatim>\<open>ExplainOptions::Verbosity\<close>, the verbosity of
  "explain(ctx, verbosity, reply)", declared in explain_options.h, which is not among the
  sources; the default body of \<^verbatim>\<open>explain\<close> ignores it.
\<close>

datatype Verbosity = kQueryPlanner | kExecStats | kExecAllPlans

text \<open>
  \<^verbatim>\<open>run\<close>, \<^verbatim>\<open>supportsWriteConcern\<close> and \<^verbatim>\<open>doCheckAuthorization\<close> are pure virtual.
  \<^verbatim>\<open>supportsWriteConcern\<close> is \<^verbatim>\<open>const\<close> and takes no argument: its answer is a
  property of the invocation.
\<close>

record 'c CommandInvocation =
  inv_definition :: Command
  run :: "'c \<Rightarrow> ReplyBuilder \<Rightarrow> unit outcome \<times> 'c \<times> ReplyBuilder"
  runAsync_override ::
    "('c RequestExecutionContext \<Rightarrow> FutureVoid outcome \<times> 'c RequestExecutionContext) option"
  explain_override ::
    "('c \<Rightarrow> Verbosity \<Rightarrow> ReplyBuilder \<Rightarrow> unit outcome \<times> 'c \<times> ReplyBuilder) option"
  supportsWriteConcern :: bool
  supportsReadConcern_override :: "(ReadConcernLevel \<Rightarrow> ReadConcernSupportResult) option"
  supportsReadMirroring_override :: "bool option"
  appendMirrorableRequest_override :: "(BSONObj \<Rightarrow> BSONObj outcome) option"
  doCheckAuthorization :: "'c \<Rightarrow> unit outcome \<times> 'c"

text \<open>
  \<^verbatim>\<open>run(rec->getOpCtx(), rec->getReplyBuilder()); return Status::OK();\<close> An exception of
  \<^verbatim>\<open>run\<close> leaves \<^verbatim>\<open>runAsync\<close> as an exception: no future is built.
\<close>

definition CommandInvocation_runAsync ::
  "'c CommandInvocation \<Rightarrow> 'c RequestExecutionContext
     \<Rightarrow> FutureVoid outcome \<times> 'c RequestExecutionContext" where
  "CommandInvocation_runAsync this rec =
     (case run this (getOpCtx rec) (getReplyBuilder rec) of
        (r, opCtx', reply') \<Rightarrow>
          (case r of
             Returned _ \<Rightarrow> Returned (Ready Status_OK)
           | Threw e \<Rightarrow> Threw e
           | Aborted \<Rightarrow> Aborted,
           rec\<lparr>getOpCtx := opCtx', getReplyBuilder := reply'\<rparr>))"

definition runAsync ::
  "'c CommandInvocation \<Rightarrow> 'c RequestExecutionContext
     \<Rightarrow> FutureVoid outcome \<times> 'c RequestExecutionContext" where
  "runAsync this rec =
     (case runAsync_override this of
        None \<Rightarrow> CommandInvocation_runAsync this rec
      | Some f \<Rightarrow> f rec)"

text \<open>
  \<^verbatim>\<open>uasserted(ErrorCodes::IllegalOperation, str::stream() << "Cannot explain cmd: " <<
  definition()->getName());\<close>
\<close>

definition CommandInvocation_explain ::
  "'c CommandInvocation \<Rightarrow> 'c \<Rightarrow> Verbosity \<Rightarrow> ReplyBuilder
     \<Rightarrow> unit outcome \<times> 'c \<times> ReplyBuilder" where
  "CommandInvocation_explain this opCtx verbosity result =
     (uasserted IllegalOperation (''Cannot explain cmd: '' @ getName (inv_definition this)),
      opCtx, result)"

definition explain ::
  "'c CommandInvocation \<Rightarrow> 'c \<Rightarrow> Verbosity \<Rightarrow> ReplyBuilder
     \<Rightarrow> unit outcome \<times> 'c \<times> ReplyBuilder" where
  "explain this opCtx verbosity result =
     (case explain_override this of
        None \<Rightarrow> CommandInvocation_explain this opCtx verbosity result
      | Some f \<Rightarrow> f opCtx verbosity result)"

text \<open>
  \<^verbatim>\<open>return {{level != repl::ReadConcernLevel::kLocalReadConcern, kReadConcernNotSupported},
  {kDefaultReadConcernNotPermitted}};\<close>
\<close>

definition CommandInvocation_supportsReadConcern ::
  "ReadConcernLevel \<Rightarrow> ReadConcernSupportResult" where
  "CommandInvocation_supportsReadConcern level =
     \<lparr> readConcernSupport =
         ConditionalStatus (level \<noteq> kLocalReadConcern) kReadConcernNotSupported,
       defaultReadConcernPermit = kDefaultReadConcernNotPermitted \<rparr>"

definition supportsReadConcern ::
  "'c CommandInvocation \<Rightarrow> ReadConcernLevel \<Rightarrow> ReadConcernSupportResult" where
  "supportsReadConcern this level =
     (case supportsReadConcern_override this of
        None \<Rightarrow> CommandInvocation_supportsReadConcern level
      | Some f \<Rightarrow> f level)"

text \<open>\<^verbatim>\<open>return false;\<close> and \<^verbatim>\<open>MONGO_UNREACHABLE;\<close>\<close>

definition CommandInvocation_supportsReadMirroring :: bool where
  "CommandInvocation_supportsReadMirroring = False"

definition CommandInvocation_appendMirrorableRequest :: "BSONObj \<Rightarrow> BSONObj outcome" where
  "CommandInvocation_appendMirrorableRequest bob = Aborted"

definition supportsReadMirroring :: "'c CommandInvocation \<Rightarrow> bool" where
  "supportsReadMirroring this =
     (case supportsReadMirroring_override this of
        None \<Rightarrow> CommandInvocation_supportsReadMirroring
      | Some b \<Rightarrow> b)"

definition appendMirrorableRequest :: "'c CommandInvocation \<Rightarrow> BSONObj \<Rightarrow> BSONObj outcome" where
  "appendMirrorableRequest this bob =
     (case appendMirrorableRequest_override this of
        None \<Rightarrow> CommandInvocation_appendMirrorableRequest bob
      | Some f \<Rightarrow> f bob)"

subsection \<open>BasicCommandWithReplyBuilderInterface\<close>

record 'c BasicCommandWithReplyBuilderInterface = Command +
  runWithReplyBuilder ::
    "'c \<Rightarrow> string \<Rightarrow> BSONObj \<Rightarrow> ReplyBuilder \<Rightarrow> bool outcome \<times> 'c \<times> ReplyBuilder"
  basic_runAsync_override ::
    "('c RequestExecutionContext \<Rightarrow> string
        \<Rightarrow> FutureVoid outcome \<times> 'c RequestExecutionContext) option"
  basic_supportsReadConcern_override ::
    "(BSONObj \<Rightarrow> ReadConcernLevel \<Rightarrow> ReadConcernSupportResult) option"

text \<open>
  \<^verbatim>\<open>if (!runWithReplyBuilder(rec->getOpCtx(), db, rec->getRequest().body,
  rec->getReplyBuilder())) return Status(ErrorCodes::FailedToRunWithReplyBuilder,
  fmt::format("Failed to run command: {}", rec->getCommand()->getName()));
  return Status::OK();\<close>
\<close>

definition BasicCommandWithReplyBuilderInterface_runAsync ::
  "'c BasicCommandWithReplyBuilderInterface \<Rightarrow> 'c RequestExecutionContext \<Rightarrow> string
     \<Rightarrow> FutureVoid outcome \<times> 'c RequestExecutionContext" where
  "BasicCommandWithReplyBuilderInterface_runAsync this rec db =
     (case runWithReplyBuilder this (getOpCtx rec) db (body (getRequest rec))
             (getReplyBuilder rec) of
        (r, opCtx', reply') \<Rightarrow>
          (case r of
             Returned ok \<Rightarrow>
               (if \<not> ok
                then Returned (Ready (Status FailedToRunWithReplyBuilder
                       (''Failed to run command: '' @ getName (getCommand rec))))
                else Returned (Ready Status_OK))
           | Threw e \<Rightarrow> Threw e
           | Aborted \<Rightarrow> Aborted,
           rec\<lparr>getOpCtx := opCtx', getReplyBuilder := reply'\<rparr>))"

definition basic_runAsync ::
  "'c BasicCommandWithReplyBuilderInterface \<Rightarrow> 'c RequestExecutionContext \<Rightarrow> string
     \<Rightarrow> FutureVoid outcome \<times> 'c RequestExecutionContext" where
  "basic_runAsync this rec db =
     (case basic_runAsync_override this of
        None \<Rightarrow> BasicCommandWithReplyBuilderInterface_runAsync this rec db
      | Some f \<Rightarrow> f rec db)"

definition BasicCommandWithReplyBuilderInterface_supportsReadConcern ::
  "BSONObj \<Rightarrow> ReadConcernLevel \<Rightarrow> ReadConcernSupportResult" where
  "BasicCommandWithReplyBuilderInterface_supportsReadConcern cmdObj level =
     \<lparr> readConcernSupport =
         ConditionalStatus (level \<noteq> kLocalReadConcern) kReadConcernNotSupported,
       defaultReadConcernPermit = kDefaultReadConcernNotPermitted \<rparr>"

definition basic_supportsReadConcern ::
  "'c BasicCommandWithReplyBuilderInterface \<Rightarrow> BSONObj \<Rightarrow> ReadConcernLevel
     \<Rightarrow> ReadConcernSupportResult" where
  "basic_supportsReadConcern this cmdObj level =
     (case basic_supportsReadConcern_override this of
        None \<Rightarrow> BasicCommandWithReplyBuilderInterface_supportsReadConcern cmdObj level
      | Some f \<Rightarrow> f cmdObj level)"

subsection \<open>TypedCommand::InvocationBase\<close>

text \<open>
  The handler \<^verbatim>\<open>typedRun\<close> of the derived invocation, with its declared result type:
  \<^verbatim>\<open>void\<close>, or a type \<open>'v\<close> usable with \<^verbatim>\<open>fillFrom\<close>. The constructor is the tag
  \<^verbatim>\<open>std::is_void<decltype(_callTypedRun(opCtx))>\<close>, fixed with the type of the handler.
\<close>

datatype ('c, 'v) typedRun =
    VoidResult "'c \<Rightarrow> unit outcome \<times> 'c"
  | TypedResult "'c \<Rightarrow> 'v outcome \<times> 'c"

text \<open>
  Modelled from the spec: \<^verbatim>\<open>ReplyBuilderInterface::fillFrom\<close>, declared in
  reply_builder_interface.h, which is not among the sources. "For typed value, the adapter
  automatically serializes the returned value into the reply": the fields that the value's
  own serializer writes are appended to the body of the reply.
\<close>

definition fillFrom :: "('v \<Rightarrow> BSONObj) \<Rightarrow> ReplyBuilder \<Rightarrow> 'v \<Rightarrow> ReplyBuilder" where
  "fillFrom serialize reply v = reply @ serialize v"

text \<open>
  \<^verbatim>\<open>_runImpl(std::true_type, opCtx, reply)\<close>: \<^verbatim>\<open>_callTypedRun(opCtx);\<close>
\<close>

definition runImpl_true_type ::
  "('c \<Rightarrow> unit outcome \<times> 'c) \<Rightarrow> 'c \<Rightarrow> ReplyBuilder
     \<Rightarrow> unit outcome \<times> 'c \<times> ReplyBuilder" where
  "runImpl_true_type callTypedRun opCtx reply =
     (case callTypedRun opCtx of (r, opCtx') \<Rightarrow> (r, opCtx', reply))"

text \<open>
  \<^verbatim>\<open>_runImpl(std::false_type, opCtx, reply)\<close>: \<^verbatim>\<open>reply->fillFrom(_callTypedRun(opCtx));\<close>
  The handler runs first; when it throws, \<^verbatim>\<open>fillFrom\<close> is not called.
\<close>

definition runImpl_false_type ::
  "('v \<Rightarrow> BSONObj) \<Rightarrow> ('c \<Rightarrow> 'v outcome \<times> 'c) \<Rightarrow> 'c \<Rightarrow> ReplyBuilder
     \<Rightarrow> unit outcome \<times> 'c \<times> ReplyBuilder" where
  "runImpl_false_type serialize callTypedRun opCtx reply =
     (case callTypedRun opCtx of
        (Returned v, opCtx') \<Rightarrow> (Returned (), opCtx', fillFrom serialize reply v)
      | (Threw e, opCtx') \<Rightarrow> (Threw e, opCtx', reply)
      | (Aborted, opCtx') \<Rightarrow> (Aborted, opCtx', reply))"

text \<open>
  \<^verbatim>\<open>using VoidResultTag = std::is_void<decltype(_callTypedRun(opCtx))>;
  _runImpl(VoidResultTag{}, opCtx, reply);\<close>
\<close>

definition InvocationBase_run ::
  "('v \<Rightarrow> BSONObj) \<Rightarrow> ('c, 'v) typedRun \<Rightarrow> 'c \<Rightarrow> ReplyBuilder
     \<Rightarrow> unit outcome \<times> 'c \<times> ReplyBuilder" where
  "InvocationBase_run serialize handler opCtx reply =
     (case handler of
        VoidResult f \<Rightarrow> runImpl_true_type f opCtx reply
      | TypedResult f \<Rightarrow> runImpl_false_type serialize f opCtx reply)"

subsection \<open>CommandHelpers::extractOrAppendOk\<close>

text \<open>
  Modelled from the spec: \<^verbatim>\<open>BSONElement::trueValue\<close>, the truthiness of a field, declared
  in bsonelement.h, which is not among the sources. A number is true when it is not zero, a
  boolean is its value, null and undefined are false, every other value is true.
\<close>

fun trueValue :: "BSONValue \<Rightarrow> bool" where
  "trueValue (BSONDouble d) = (d \<noteq> 0)"
| "trueValue (BSONInt i) = (i \<noteq> 0)"
| "trueValue (BSONLong i) = (i \<noteq> 0)"
| "trueValue (BSONBool b) = b"
| "trueValue BSONNull = False"
| "trueValue BSONUndefined = False"
| "trueValue (BSONString s) = True"
| "trueValue (BSONObject fs) = True"

text \<open>
  Modelled from the spec: \<^verbatim>\<open>CommandHelpers::extractOrAppendOk\<close>, declared in commands.h
  (line 176) and defined in commands.cpp, which is not among the sources. From the comment
  of the declaration and the spec: if the field "ok" is present in the reply, its truthiness
  is returned; otherwise the reply is patched to indicate success (the field "ok" with the
  value 1 is appended) and true is returned. A field is looked up by its first occurrence.
\<close>

definition extractOrAppendOk :: "BSONObj \<Rightarrow> bool \<times> BSONObj" where
  "extractOrAppendOk reply =
     (case map_of reply ''ok'' of
        Some okField \<Rightarrow> (trueValue okField, reply)
      | None \<Rightarrow> (True, reply @ [(''ok'', BSONDouble 1)]))"

subsection \<open>CommandRegistry\<close>

text \<open>
  The registry: the counter of unknown commands and the map from names to commands. A
  \<^verbatim>\<open>Command*\<close> is a value of an arbitrary type \<open>'p\<close> of addresses: two commands are the
  identical instance when their addresses are equal.
\<close>

record 'p CommandRegistry =
  unknowns :: "64 word"
  commands :: "string \<rightharpoonup> 'p"

definition newCommandRegistry :: "'p CommandRegistry" where
  "newCommandRegistry = \<lparr> unknowns = 0, commands = Map.empty \<rparr>"

definition allCommands :: "'p CommandRegistry \<Rightarrow> (string \<rightharpoonup> 'p)" where
  "allCommands this = commands this"

definition incrementUnknownCommands :: "'p CommandRegistry \<Rightarrow> 'p CommandRegistry" where
  "incrementUnknownCommands this = this\<lparr>unknowns := unknowns this + 1\<rparr>"

text \<open>
  Modelled from the spec: \<^verbatim>\<open>CommandRegistry::registerCommand\<close>, declared in commands.h
  (line 1065) and defined in commands.cpp, which is not among the sources.
  "registerCommand(descriptor, name, aliases): on name/alias collision, aborts the process":
  the name and then each alias is entered for the command; a key that is already in the map
  aborts.
\<close>

fun registerKeys :: "'p \<Rightarrow> string list \<Rightarrow> (string \<rightharpoonup> 'p) \<Rightarrow> (string \<rightharpoonup> 'p) outcome" where
  "registerKeys command [] m = Returned m"
| "registerKeys command (key # keys) m =
     (case m key of
        Some other \<Rightarrow> Aborted
      | None \<Rightarrow> registerKeys command keys (m(key \<mapsto> command)))"

definition registerCommand ::
  "'p CommandRegistry \<Rightarrow> 'p \<Rightarrow> string \<Rightarrow> string list \<Rightarrow> 'p CommandRegistry outcome" where
  "registerCommand this command name aliases =
     (case registerKeys command (name # aliases) (commands this) of
        Returned m \<Rightarrow> Returned (this\<lparr>commands := m\<rparr>)
      | Threw e \<Rightarrow> Threw e
      | Aborted \<Rightarrow> Aborted)"

text \<open>
  Modelled from the spec: \<^verbatim>\<open>CommandRegistry::findCommand\<close>, declared in commands.h
  (line 1067) and defined in commands.cpp, which is not among the sources.
  "findCommand(name) \<rightarrow> Descriptor | absent", read-only.
\<close>

definition findCommand :: "'p CommandRegistry \<Rightarrow> string \<Rightarrow> 'p option" where
  "findCommand this name = commands this name"

text \<open>
  Startup: the commands register one after the other, each with its name and aliases; the
  first collision aborts the process.
\<close>

fun registerAll ::
  "('p \<times> string \<times> string list) list \<Rightarrow> 'p CommandRegistry \<Rightarrow> 'p CommandRegistry outcome" where
  "registerAll [] this = Returned this"
| "registerAll ((command, name, aliases) # rest) this =
     (case registerCommand this command name aliases of
        Returned this' \<Rightarrow> registerAll rest this'
      | Threw e \<Rightarrow> Threw e
      | Aborted \<Rightarrow> Aborted)"

subsection \<open>The dispatcher\<close>

text \<open>
  Modelled from the spec: \<^verbatim>\<open>CommandInvocation::checkAuthorization\<close>, declared in commands.h
  (line 698) and defined in commands.cpp, which is not among the sources.
  "checkAuthorization(ctx, request) is non-overridable and always delegates to a
  pure-virtual doCheckAuthorization."
\<close>

definition checkAuthorization ::
  "'c CommandInvocation \<Rightarrow> 'c \<Rightarrow> OpMsgRequest \<Rightarrow> unit outcome \<times> 'c" where
  "checkAuthorization this opCtx request = doCheckAuthorization this opCtx"

text \<open>
  Modelled from the spec: the concern negotiation of the dispatcher, which is not among the
  sources. "Concern queries (supportsWriteConcern, supportsReadConcern) are pure predicates
  evaluated before run/runAsync; a negative/unsupported result short-circuits dispatch with
  an InvalidOptions failure and run is never reached." The level is the read concern level
  of the request.
\<close>

definition negotiateConcerns :: "'c CommandInvocation \<Rightarrow> ReadConcernLevel \<Rightarrow> unit outcome" where
  "negotiateConcerns invocation level =
     (if \<not> supportsWriteConcern invocation
      then uasserted InvalidOptions ''write concern not supported''
      else if \<not> isOK (readConcernSupport (supportsReadConcern invocation level))
      then uasserted InvalidOptions
             (reason (readConcernSupport (supportsReadConcern invocation level)))
      else Returned ())"

text \<open>
  Modelled from the spec: the states of an invocation, "Created \<rightarrow> (optional Explain) \<rightarrow>
  AuthorizationChecked \<rightarrow> ConcernNegotiated \<rightarrow> Running \<rightarrow> {Completed | Failed}". The
  dispatcher below records the states an invocation enters.
\<close>

datatype InvocationState =
    Created
  | AuthorizationChecked
  | ConcernNegotiated
  | Running
  | Completed
  | Failed

text \<open>
  Modelled from the spec: the stages of the dispatcher before execution, "checkAuthorization
  \<rightarrow> concern negotiation (may short-circuit)". The result is the outcome of the two stages,
  the states entered, and the operation context they leave.
\<close>

definition beforeExecution ::
  "'c CommandInvocation \<Rightarrow> ReadConcernLevel \<Rightarrow> 'c \<Rightarrow> OpMsgRequest
     \<Rightarrow> unit outcome \<times> InvocationState list \<times> 'c" where
  "beforeExecution invocation level opCtx request =
     (case checkAuthorization invocation opCtx request of
        (Returned u, opCtx') \<Rightarrow>
          (case negotiateConcerns invocation level of
             Returned u' \<Rightarrow> (Returned (), [Created, AuthorizationChecked, ConcernNegotiated], opCtx')
           | Threw e \<Rightarrow> (Threw e, [Created, AuthorizationChecked, Failed], opCtx')
           | Aborted \<Rightarrow> (Aborted, [Created, AuthorizationChecked], opCtx'))
      | (Threw e, opCtx') \<Rightarrow> (Threw e, [Created, Failed], opCtx')
      | (Aborted, opCtx') \<Rightarrow> (Aborted, [Created], opCtx'))"

text \<open>
  Modelled from the spec: the dispatcher of a parsed invocation on the blocking path, which
  is not among the sources. "hook.onBeforeRun \<rightarrow> checkAuthorization \<rightarrow> concern negotiation
  (may short-circuit) \<rightarrow> invocation.run() or runAsync() \<rightarrow> hook.onAfterRun (always, even on
  failure)". The hook is an observer: \<open>onBefore\<close> and \<open>onAfter\<close> are what the registered hook
  does to the operation context (the identity when no hook is registered). Reply assembly
  and the counters are not part of this model. After an abort there is no process left to
  run the hook.
\<close>

definition dispatch ::
  "('c \<Rightarrow> 'c) \<Rightarrow> ('c \<Rightarrow> 'c) \<Rightarrow> ReadConcernLevel \<Rightarrow> 'c CommandInvocation \<Rightarrow> 'c
     \<Rightarrow> OpMsgRequest \<Rightarrow> ReplyBuilder
     \<Rightarrow> unit outcome \<times> InvocationState list \<times> 'c \<times> ReplyBuilder" where
  "dispatch onBefore onAfter level invocation opCtx request reply =
     (case beforeExecution invocation level (onBefore opCtx) request of
        (Returned u, states, opCtx1) \<Rightarrow>
          (case run invocation opCtx1 reply of
             (Returned u', opCtx2, reply') \<Rightarrow>
               (Returned (), states @ [Running, Completed], onAfter opCtx2, reply')
           | (Threw e, opCtx2, reply') \<Rightarrow>
               (Threw e, states @ [Running, Failed], onAfter opCtx2, reply')
           | (Aborted, opCtx2, reply') \<Rightarrow>
               (Aborted, states @ [Running], opCtx2, reply'))
      | (Threw e, states, opCtx1) \<Rightarrow> (Threw e, states, onAfter opCtx1, reply)
      | (Aborted, states, opCtx1) \<Rightarrow> (Aborted, states, opCtx1, reply))"

text \<open>
  Modelled from the spec: the same dispatcher on the asynchronous path, where execution is
  \<^verbatim>\<open>runAsync\<close> on the execution context. A future that is ready with an error is a
  failure; a pending future leaves the invocation running.
\<close>

definition dispatchAsync ::
  "('c \<Rightarrow> 'c) \<Rightarrow> ('c \<Rightarrow> 'c) \<Rightarrow> ReadConcernLevel \<Rightarrow> 'c CommandInvocation
     \<Rightarrow> 'c RequestExecutionContext
     \<Rightarrow> FutureVoid outcome \<times> InvocationState list \<times> 'c RequestExecutionContext" where
  "dispatchAsync onBefore onAfter level invocation rec =
     (case beforeExecution invocation level (onBefore (getOpCtx rec)) (getRequest rec) of
        (Returned u, states, opCtx1) \<Rightarrow>
          (case runAsync invocation (rec\<lparr>getOpCtx := opCtx1\<rparr>) of
             (Returned (Ready status), rec') \<Rightarrow>
               (Returned (Ready status),
                states @ [Running, if isOK status then Completed else Failed],
                rec'\<lparr>getOpCtx := onAfter (getOpCtx rec')\<rparr>)
           | (Returned Pending, rec') \<Rightarrow> (Returned Pending, states @ [Running], rec')
           | (Threw e, rec') \<Rightarrow>
               (Threw e, states @ [Running, Failed],
                rec'\<lparr>getOpCtx := onAfter (getOpCtx rec')\<rparr>)
           | (Aborted, rec') \<Rightarrow> (Aborted, states @ [Running], rec'))
      | (Threw e, states, opCtx1) \<Rightarrow> (Threw e, states, rec\<lparr>getOpCtx := onAfter opCtx1\<rparr>)
      | (Aborted, states, opCtx1) \<Rightarrow> (Aborted, states, rec\<lparr>getOpCtx := opCtx1\<rparr>))"

subsection \<open>Example objects\<close>

text \<open>
  A ping invocation over an operation context that counts the handlers run, and a legacy
  command that succeeds exactly on a non-empty request body. They override nothing.
\<close>

definition pingInvocation :: "nat CommandInvocation" where
  "pingInvocation =
     \<lparr> inv_definition = plainCommand ''ping'',
       run = (\<lambda>opCtx reply. (Returned (), Suc opCtx, reply @ [(''pong'', BSONBool True)])),
       runAsync_override = None,
       explain_override = None,
       supportsWriteConcern = False,
       supportsReadConcern_override = None,
       supportsReadMirroring_override = None,
       appendMirrorableRequest_override = None,
       doCheckAuthorization = (\<lambda>opCtx. (Returned (), opCtx)) \<rparr>"

definition legacyCommand :: "nat BasicCommandWithReplyBuilderInterface" where
  "legacyCommand =
     Command.extend (plainCommand ''legacy'')
       (BasicCommandWithReplyBuilderInterface.fields
          (\<lambda>opCtx db cmdObj reply. (Returned (cmdObj \<noteq> []), Suc opCtx, reply))
          None None)"

definition requestContext :: "BSONObj \<Rightarrow> string \<Rightarrow> nat RequestExecutionContext" where
  "requestContext cmdObj n =
     \<lparr> getOpCtx = 0, getRequest = \<lparr> body = cmdObj \<rparr>, getReplyBuilder = [],
       getCommand = plainCommand n \<rparr>"

text \<open>
  The precondition of \<^verbatim>\<open>appendMirrorableRequest\<close>, for a caller that performs the calls of
  a list one after the other: every invocation called supports read mirroring.
\<close>

definition mirroring_precondition :: "('c CommandInvocation \<times> BSONObj) list \<Rightarrow> bool" where
  "mirroring_precondition calls = list_all (\<lambda>call. supportsReadMirroring (fst call)) calls"

definition findInvocation :: "nat CommandInvocation" where
  "findInvocation =
     pingInvocation
       \<lparr> inv_definition := plainCommand ''find'',
         supportsReadMirroring_override := Some True,
         appendMirrorableRequest_override :=
           Some (\<lambda>bob. Returned (bob @ [(''find'', BSONString ''coll'')])) \<rparr>"

text \<open>
  Examples for the typed adapter, the reply helper and the registry: a pass-fail handler and
  a handler that returns a count, the serializer and the parser of the count, two replies,
  and the registry after the startup of two commands at the addresses 1 and 2.
\<close>

definition passFailHandler :: "(nat, int) typedRun" where
  "passFailHandler = VoidResult (\<lambda>opCtx. (Returned (), Suc opCtx))"

definition countHandler :: "(nat, int) typedRun" where
  "countHandler = TypedResult (\<lambda>opCtx. (Returned 3, Suc opCtx))"

definition serializeCount :: "int \<Rightarrow> BSONObj" where
  "serializeCount n = [(''n'', BSONInt n)]"

fun parseCount :: "BSONObj \<Rightarrow> int option" where
  "parseCount [(k, BSONInt n)] = (if k = ''n'' then Some n else None)"
| "parseCount other = None"

definition failedReply :: BSONObj where
  "failedReply = [(''errmsg'', BSONString ''no''), (''ok'', BSONDouble 0)]"

definition bareReply :: BSONObj where
  "bareReply = [(''n'', BSONInt 3)]"

definition startupCommands :: "(nat \<times> string \<times> string list) list" where
  "startupCommands = [(1, ''find'', [''query'']), (2, ''ping'', [])]"

definition startupRegistry :: "nat CommandRegistry" where
  "startupRegistry =
     \<lparr> unknowns = 0, commands = Map.empty(''find'' \<mapsto> 1, ''query'' \<mapsto> 1, ''ping'' \<mapsto> 2) \<rparr>"

section \<open>Properties\<close>

text \<open>
  Returning the members unchanged is a property of a body, not of the modelling: the two
  counter increments are \<^verbatim>\<open>const\<close> members too, and they do change the command.
\<close>

lemma incrementCommandsExecuted_changes:
  "snd (incrementCommandsExecuted this) \<noteq> this"
proof
  assume "snd (incrementCommandsExecuted this) = this"
  then have "commandsExecuted (snd (incrementCommandsExecuted this)) = commandsExecuted this"
    by simp
  then show False by (simp add: incrementCommandsExecuted_def)
qed

lemma incrementCommandsFailed_changes:
  "snd (incrementCommandsFailed this) \<noteq> this"
proof
  assume "snd (incrementCommandsFailed this) = this"
  then have "commandsFailed (snd (incrementCommandsFailed this)) = commandsFailed this"
    by simp
  then show False by (simp add: incrementCommandsFailed_def)
qed

lemma capability_default:
  assumes "adminOnly_override this = None"
    and "requiresAuth_override this = None"
    and "maintenanceOk_override this = None"
  shows "capability q this = (conservative_default q, this)"
  using assms
  by (cases q)
     (simp_all add: adminOnly_def requiresAuth_def maintenanceOk_def virtual_call_def
        Command_adminOnly_def Command_requiresAuth_def Command_maintenanceOk_def)

lemma capabilities_default:
  assumes "adminOnly_override this = None"
    and "requiresAuth_override this = None"
    and "maintenanceOk_override this = None"
  shows "capabilities qs this = (map conservative_default qs, this)"
proof (induction qs)
  case Nil
  show ?case by simp
next
  case (Cons q qs)
  from assms have "capability q this = (conservative_default q, this)"
    by (rule capability_default)
  with Cons.IH show ?case by simp
qed

text \<open>
  C8. A command that overrides none of \<^verbatim>\<open>adminOnly\<close>, \<^verbatim>\<open>requiresAuth\<close> and
  \<^verbatim>\<open>maintenanceOk\<close> answers \<open>False\<close>, \<open>True\<close> and \<open>True\<close>, and each call hands the command
  back as it was (name, aliases and both counters); so does any sequence of such calls.
\<close>

theorem Command_capability_defaults:
  assumes "adminOnly_override this = None"
    and "requiresAuth_override this = None"
    and "maintenanceOk_override this = None"
  shows "adminOnly this = (False, this) \<and>
         requiresAuth this = (True, this) \<and>
         maintenanceOk this = (True, this) \<and>
         capabilities qs this = (map conservative_default qs, this)"
proof -
  have "adminOnly this = (False, this)"
    using capability_default [OF assms, of AdminOnly] by simp
  moreover have "requiresAuth this = (True, this)"
    using capability_default [OF assms, of RequiresAuth] by simp
  moreover have "maintenanceOk this = (True, this)"
    using capability_default [OF assms, of MaintenanceOk] by simp
  moreover note capabilities_default [OF assms, of qs]
  ultimately show ?thesis by simp
qed

theorem Command_capability_defaults_witness:
  "adminOnly (plainCommand ''ping'') = (False, plainCommand ''ping'') \<and>
   requiresAuth (plainCommand ''ping'') = (True, plainCommand ''ping'') \<and>
   maintenanceOk (plainCommand ''ping'') = (True, plainCommand ''ping'') \<and>
   capabilities [RequiresAuth, AdminOnly, RequiresAuth] (plainCommand ''ping'')
     = ([True, False, True], plainCommand ''ping'')"
  using Command_capability_defaults
    [of "plainCommand ''ping''" "[RequiresAuth, AdminOnly, RequiresAuth]"]
  by (simp add: plainCommand_def)

subsection \<open>The defaults of CommandInvocation\<close>

text \<open>
  C1. An invocation that does not override \<^verbatim>\<open>runAsync\<close> runs \<^verbatim>\<open>run\<close> once, inline, on
  the operation context and the reply builder of the execution context: the context comes
  back with what that one call of \<^verbatim>\<open>run\<close> left. A normal return of \<^verbatim>\<open>run\<close> gives a
  future that is ready with \<^verbatim>\<open>Status::OK()\<close>; an exception or an abort of \<^verbatim>\<open>run\<close> is the
  exception or the abort of \<^verbatim>\<open>runAsync\<close>; the default never returns a pending future nor a
  future ready with an error.
\<close>

theorem CommandInvocation_runAsync_is_run:
  assumes "runAsync_override this = None"
    and "run this (getOpCtx rec) (getReplyBuilder rec) = (r, opCtx', reply')"
  shows "snd (runAsync this rec) = rec\<lparr>getOpCtx := opCtx', getReplyBuilder := reply'\<rparr> \<and>
         (fst (runAsync this rec) = Returned (Ready Status_OK)) = (r = Returned ()) \<and>
         (fst (runAsync this rec) = Threw e) = (r = Threw e) \<and>
         (fst (runAsync this rec) = Aborted) = (r = Aborted) \<and>
         fst (runAsync this rec) \<noteq> Returned Pending \<and>
         (fst (runAsync this rec) = Returned (Ready s)) = (r = Returned () \<and> s = Status_OK)"
  using assms
  by (cases r) (auto simp add: runAsync_def CommandInvocation_runAsync_def)

theorem CommandInvocation_runAsync_is_run_witness:
  "snd (runAsync pingInvocation (requestContext [] ''ping''))
     = (requestContext [] ''ping'')
         \<lparr>getOpCtx := 1, getReplyBuilder := [(''pong'', BSONBool True)]\<rparr> \<and>
   fst (runAsync pingInvocation (requestContext [] ''ping'')) = Returned (Ready Status_OK)"
  using CommandInvocation_runAsync_is_run
    [of pingInvocation "requestContext [] ''ping''" "Returned ()" 1
        "[(''pong'', BSONBool True)]"]
  by (simp add: pingInvocation_def requestContext_def)

text \<open>
  C5. An invocation that does not override \<^verbatim>\<open>explain\<close> throws \<^verbatim>\<open>IllegalOperation\<close> with
  the message "Cannot explain cmd: " followed by the name of its command, and leaves the
  operation context and the reply builder as they were.
\<close>

theorem CommandInvocation_explain_throws:
  assumes "explain_override this = None"
  shows "explain this opCtx verbosity result =
           (Threw (Status IllegalOperation
                     (''Cannot explain cmd: '' @ getName (inv_definition this))),
            opCtx, result)"
  using assms
  by (simp add: explain_def CommandInvocation_explain_def uasserted_def)

theorem CommandInvocation_explain_throws_witness:
  "explain pingInvocation 7 kQueryPlanner [] =
     (Threw (Status IllegalOperation ''Cannot explain cmd: ping''), 7, [])"
  using CommandInvocation_explain_throws [of pingInvocation 7 kQueryPlanner "[]"]
  by (simp add: pingInvocation_def plainCommand_def getName_def)

text \<open>
  C9. An invocation that does not override \<^verbatim>\<open>supportsReadConcern\<close>, and a basic command
  that does not override its \<^verbatim>\<open>supportsReadConcern\<close>, support a level exactly when it is
  \<^verbatim>\<open>kLocalReadConcern\<close>; for every other level the reason is \<^verbatim>\<open>InvalidOptions\<close>, "read
  concern not supported"; and at every level the default read concern is refused with
  \<^verbatim>\<open>InvalidOptions\<close>, "default read concern not permitted".
\<close>

theorem supportsReadConcern_default_local_only:
  assumes "supportsReadConcern_override this = None"
    and "basic_supportsReadConcern_override cmd = None"
  shows "isOK (readConcernSupport (supportsReadConcern this level))
           = (level = kLocalReadConcern) \<and>
         readConcernSupport (supportsReadConcern this level)
           = (if level = kLocalReadConcern then Status_OK
              else Status InvalidOptions ''read concern not supported'') \<and>
         defaultReadConcernPermit (supportsReadConcern this level)
           = Status InvalidOptions ''default read concern not permitted'' \<and>
         isOK (readConcernSupport (basic_supportsReadConcern cmd cmdObj level))
           = (level = kLocalReadConcern) \<and>
         readConcernSupport (basic_supportsReadConcern cmd cmdObj level)
           = (if level = kLocalReadConcern then Status_OK
              else Status InvalidOptions ''read concern not supported'') \<and>
         defaultReadConcernPermit (basic_supportsReadConcern cmd cmdObj level)
           = Status InvalidOptions ''default read concern not permitted''"
  using assms
  by (simp add: supportsReadConcern_def CommandInvocation_supportsReadConcern_def
        basic_supportsReadConcern_def
        BasicCommandWithReplyBuilderInterface_supportsReadConcern_def
        ConditionalStatus_def kReadConcernNotSupported_def
        kDefaultReadConcernNotPermitted_def isOK_def Status_OK_def)

theorem supportsReadConcern_default_local_only_witness:
  "\<not> isOK (readConcernSupport (supportsReadConcern pingInvocation kMajorityReadConcern)) \<and>
   readConcernSupport (supportsReadConcern pingInvocation kMajorityReadConcern)
     = Status InvalidOptions ''read concern not supported'' \<and>
   defaultReadConcernPermit (supportsReadConcern pingInvocation kMajorityReadConcern)
     = Status InvalidOptions ''default read concern not permitted'' \<and>
   isOK (readConcernSupport (basic_supportsReadConcern legacyCommand [] kLocalReadConcern)) \<and>
   defaultReadConcernPermit (basic_supportsReadConcern legacyCommand [] kLocalReadConcern)
     = Status InvalidOptions ''default read concern not permitted''"
proof -
  have h1: "supportsReadConcern_override pingInvocation = None"
    by (simp add: pingInvocation_def)
  have h2: "basic_supportsReadConcern_override legacyCommand = None"
    by (simp add: legacyCommand_def Command.extend_def
          BasicCommandWithReplyBuilderInterface.fields_def)
  show ?thesis
    using supportsReadConcern_default_local_only [OF h1 h2, of kMajorityReadConcern "[]"]
          supportsReadConcern_default_local_only [OF h1 h2, of kLocalReadConcern "[]"]
    by (simp add: isOK_def Status_OK_def)
qed

text \<open>
  C10. An invocation with the default mirroring behaviour does not support read mirroring,
  and its \<^verbatim>\<open>appendMirrorableRequest\<close> aborts the process whatever the builder. Among the
  calls of a caller that keeps the precondition (it calls \<^verbatim>\<open>appendMirrorableRequest\<close> only
  on invocations that support read mirroring) there is none on such an invocation, so the
  aborting body is not run.
\<close>

theorem CommandInvocation_default_mirroring:
  assumes "supportsReadMirroring_override this = None"
    and "appendMirrorableRequest_override this = None"
    and "mirroring_precondition calls"
  shows "supportsReadMirroring this = False \<and>
         appendMirrorableRequest this bob = Aborted \<and>
         this \<notin> fst ` set calls"
proof -
  have off: "supportsReadMirroring this = False"
    using assms(1)
    by (simp add: supportsReadMirroring_def CommandInvocation_supportsReadMirroring_def)
  have fatal: "appendMirrorableRequest this bob = Aborted"
    using assms(2)
    by (simp add: appendMirrorableRequest_def CommandInvocation_appendMirrorableRequest_def)
  have "this \<notin> fst ` set calls"
  proof
    assume "this \<in> fst ` set calls"
    then obtain call where "call \<in> set calls" and "fst call = this" by auto
    with assms(3) have "supportsReadMirroring this"
      by (auto simp add: mirroring_precondition_def list_all_iff)
    with off show False by simp
  qed
  with off fatal show ?thesis by simp
qed

theorem CommandInvocation_default_mirroring_witness:
  "supportsReadMirroring pingInvocation = False \<and>
   appendMirrorableRequest pingInvocation [] = Aborted \<and>
   pingInvocation \<notin> fst ` set [(findInvocation, [])]"
  using CommandInvocation_default_mirroring [of pingInvocation "[(findInvocation, [])]" "[]"]
  by (simp add: pingInvocation_def findInvocation_def mirroring_precondition_def
        supportsReadMirroring_def)

subsection \<open>The default of BasicCommandWithReplyBuilderInterface\<close>

text \<open>
  C6. A basic command that does not override \<^verbatim>\<open>runAsync\<close>: when \<^verbatim>\<open>runWithReplyBuilder\<close>
  returns false, \<^verbatim>\<open>runAsync\<close> returns a future ready with \<^verbatim>\<open>FailedToRunWithReplyBuilder\<close>
  and the message "Failed to run command: " followed by the name of the command of the
  execution context; when it returns true, a future ready with \<^verbatim>\<open>Status::OK()\<close>. In both
  cases the execution context carries what \<^verbatim>\<open>runWithReplyBuilder\<close> left.
\<close>

theorem BasicCommand_runAsync_status:
  assumes "basic_runAsync_override this = None"
    and "runWithReplyBuilder this (getOpCtx rec) db (body (getRequest rec))
           (getReplyBuilder rec) = (Returned ok, opCtx', reply')"
  shows "basic_runAsync this rec db =
           (Returned (Ready (if ok then Status_OK
                             else Status FailedToRunWithReplyBuilder
                                    (''Failed to run command: '' @ getName (getCommand rec)))),
            rec\<lparr>getOpCtx := opCtx', getReplyBuilder := reply'\<rparr>)"
  using assms
  by (simp add: basic_runAsync_def BasicCommandWithReplyBuilderInterface_runAsync_def)

theorem BasicCommand_runAsync_status_witness:
  "basic_runAsync legacyCommand (requestContext [] ''legacy'') ''admin'' =
     (Returned (Ready (Status FailedToRunWithReplyBuilder ''Failed to run command: legacy'')),
      (requestContext [] ''legacy'')\<lparr>getOpCtx := 1, getReplyBuilder := []\<rparr>) \<and>
   basic_runAsync legacyCommand (requestContext [(''legacy'', BSONInt 1)] ''legacy'') ''admin'' =
     (Returned (Ready Status_OK),
      (requestContext [(''legacy'', BSONInt 1)] ''legacy'')
        \<lparr>getOpCtx := 1, getReplyBuilder := []\<rparr>)"
  using BasicCommand_runAsync_status
          [of legacyCommand "requestContext [] ''legacy''" "''admin''" False 1 "[]"]
        BasicCommand_runAsync_status
          [of legacyCommand "requestContext [(''legacy'', BSONInt 1)] ''legacy''" "''admin''"
              True 1 "[]"]
  by (simp add: legacyCommand_def requestContext_def plainCommand_def getName_def
        Command.extend_def BasicCommandWithReplyBuilderInterface.fields_def)

subsection \<open>The typed adapter\<close>

text \<open>
  C2. \<^verbatim>\<open>run\<close> of \<^verbatim>\<open>InvocationBase\<close> follows the declared result type of the handler.
  A \<^verbatim>\<open>void\<close> handler that returns normally has run once (the operation context is the one
  it left) and the reply is as it was; when that reply carried no "ok" field, the reply
  helper reads it as a success and marks it so. A handler that returns the value \<open>v\<close> has run
  once and the reply has gained exactly the fields of the serialized \<open>v\<close>; a decoder that
  inverts the serializer reads \<open>v\<close> back from them.
\<close>

theorem InvocationBase_run_by_result_type:
  assumes "f opCtx = (Returned (), afterVoid)"
    and "map_of reply ''ok'' = None"
    and "g opCtx = (Returned v, afterTyped)"
    and "\<forall>x. decode (serialize x) = Some x"
  shows "InvocationBase_run serialize (VoidResult f) opCtx reply = (Returned (), afterVoid, reply) \<and>
         fst (extractOrAppendOk
                (snd (snd (InvocationBase_run serialize (VoidResult f) opCtx reply)))) = True \<and>
         (\<exists>ok. map_of (snd (extractOrAppendOk
                   (snd (snd (InvocationBase_run serialize (VoidResult f) opCtx reply)))))
                 ''ok'' = Some ok \<and> trueValue ok) \<and>
         InvocationBase_run serialize (TypedResult g) opCtx reply
           = (Returned (), afterTyped, reply @ serialize v) \<and>
         decode (drop (length reply)
                   (snd (snd (InvocationBase_run serialize (TypedResult g) opCtx reply))))
           = Some v"
proof -
  have void: "InvocationBase_run serialize (VoidResult f) opCtx reply
                = (Returned (), afterVoid, reply)"
    using assms(1) by (simp add: InvocationBase_run_def runImpl_true_type_def)
  have typed: "InvocationBase_run serialize (TypedResult g) opCtx reply
                 = (Returned (), afterTyped, reply @ serialize v)"
    using assms(3) by (simp add: InvocationBase_run_def runImpl_false_type_def fillFrom_def)
  have patched: "extractOrAppendOk reply = (True, reply @ [(''ok'', BSONDouble 1)])"
    using assms(2) by (simp add: extractOrAppendOk_def)
  have "map_of (reply @ [(''ok'', BSONDouble 1)]) ''ok'' = Some (BSONDouble 1)"
    using assms(2) by (simp add: map_add_def)
  with void typed patched assms(4) show ?thesis by simp
qed

theorem InvocationBase_run_by_result_type_witness:
  "InvocationBase_run serializeCount passFailHandler 0 [] = (Returned (), 1, []) \<and>
   fst (extractOrAppendOk
          (snd (snd (InvocationBase_run serializeCount passFailHandler 0 [])))) = True \<and>
   (\<exists>ok. map_of (snd (extractOrAppendOk
             (snd (snd (InvocationBase_run serializeCount passFailHandler 0 [])))))
           ''ok'' = Some ok \<and> trueValue ok) \<and>
   InvocationBase_run serializeCount countHandler 0 []
     = (Returned (), 1, [] @ serializeCount 3) \<and>
   parseCount (drop (length ([]::BSONObj))
                 (snd (snd (InvocationBase_run serializeCount countHandler 0 [])))) = Some 3"
  unfolding passFailHandler_def countHandler_def
  by (rule InvocationBase_run_by_result_type
             [where f = "\<lambda>opCtx. (Returned (), Suc opCtx)" and opCtx = "0::nat"
                and afterVoid = 1 and reply = "[]"
                and g = "\<lambda>opCtx. (Returned (3::int), Suc opCtx)" and v = 3
                and afterTyped = 1 and decode = parseCount and serialize = serializeCount])
     (simp_all add: serializeCount_def)

subsection \<open>The reply helper\<close>

text \<open>
  C7. \<^verbatim>\<open>extractOrAppendOk\<close> on a reply with an "ok" field returns the truthiness of that
  field and leaves the reply as it is. On a reply without one it returns true and appends
  an "ok" field that is true, keeping every other field; a second call then reads that
  field and changes nothing.
\<close>

theorem extractOrAppendOk_normalizes:
  "(map_of reply ''ok'' = Some okField \<longrightarrow>
      extractOrAppendOk reply = (trueValue okField, reply)) \<and>
   (map_of reply ''ok'' = None \<longrightarrow>
      fst (extractOrAppendOk reply) = True \<and>
      (\<exists>v. snd (extractOrAppendOk reply) = reply @ [(''ok'', v)] \<and> trueValue v) \<and>
      (\<forall>k. k \<noteq> ''ok'' \<longrightarrow> map_of (snd (extractOrAppendOk reply)) k = map_of reply k)) \<and>
   extractOrAppendOk (snd (extractOrAppendOk reply)) = extractOrAppendOk reply"
proof -
  have present: "extractOrAppendOk r = (trueValue x, r)" if "map_of r ''ok'' = Some x" for r x
    using that by (simp add: extractOrAppendOk_def)
  have absent: "extractOrAppendOk r = (True, r @ [(''ok'', BSONDouble 1)])"
    if "map_of r ''ok'' = None" for r
    using that by (simp add: extractOrAppendOk_def)
  have appended: "map_of (r @ [(''ok'', BSONDouble 1)]) ''ok'' = Some (BSONDouble 1)"
    if "map_of r ''ok'' = None" for r :: BSONObj
    using that by (simp add: map_add_def)
  have others: "map_of (r @ [(''ok'', BSONDouble 1)]) k = map_of r k"
    if "k \<noteq> ''ok''" for r :: BSONObj and k
    using that by (simp add: map_add_def split: option.splits)
  have again: "extractOrAppendOk (snd (extractOrAppendOk reply)) = extractOrAppendOk reply"
  proof (cases "map_of reply ''ok''")
    case None
    then show ?thesis
      using absent [OF None] present [OF appended [OF None]] by simp
  next
    case (Some x)
    then show ?thesis using present [OF Some] by simp
  qed
  show ?thesis
    using present absent others again by auto
qed

theorem extractOrAppendOk_normalizes_witness:
  "extractOrAppendOk failedReply = (False, failedReply) \<and>
   fst (extractOrAppendOk bareReply) = True \<and>
   (\<exists>v. snd (extractOrAppendOk bareReply) = bareReply @ [(''ok'', v)] \<and> trueValue v) \<and>
   extractOrAppendOk (snd (extractOrAppendOk bareReply)) = extractOrAppendOk bareReply"
proof -
  have h1: "map_of failedReply ''ok'' = Some (BSONDouble 0)"
    by (simp add: failedReply_def)
  have h2: "map_of bareReply ''ok'' = None"
    by (simp add: bareReply_def)
  show ?thesis
    using extractOrAppendOk_normalizes [of failedReply "BSONDouble 0"]
          extractOrAppendOk_normalizes [of bareReply okField]
          h1 h2
    by simp
qed

subsection \<open>The registry\<close>

lemma registerKeys_Returned:
  "registerKeys command keys m = Returned m' \<Longrightarrow>
     (\<forall>k \<in> set keys. m' k = Some command) \<and> (\<forall>k d. m k = Some d \<longrightarrow> m' k = Some d)"
proof (induction keys arbitrary: m)
  case Nil
  then show ?case by simp
next
  case (Cons key keys)
  show ?case
  proof (cases "m key")
    case None
    with Cons.prems have step: "registerKeys command keys (m(key \<mapsto> command)) = Returned m'"
      by simp
    from Cons.IH [OF step]
    have rest: "\<forall>k \<in> set keys. m' k = Some command"
      and kept: "\<forall>k d. (m(key \<mapsto> command)) k = Some d \<longrightarrow> m' k = Some d"
      by blast+
    from kept have "m' key = Some command" by simp
    moreover have "m' k = Some d" if "m k = Some d" for k d
    proof -
      from that None have "k \<noteq> key" by auto
      with that have "(m(key \<mapsto> command)) k = Some d" by simp
      with kept show ?thesis by blast
    qed
    ultimately show ?thesis using rest by auto
  next
    case (Some other)
    with Cons.prems show ?thesis by simp
  qed
qed

lemma registerCommand_Returned:
  assumes "registerCommand this command name aliases = Returned this'"
  shows "(\<forall>k \<in> set (name # aliases). findCommand this' k = Some command) \<and>
         (\<forall>k d. findCommand this k = Some d \<longrightarrow> findCommand this' k = Some d)"
proof -
  from assms obtain m' where
    keys: "registerKeys command (name # aliases) (commands this) = Returned m'"
    and this': "this' = this\<lparr>commands := m'\<rparr>"
    by (auto simp add: registerCommand_def split: outcome.splits)
  from registerKeys_Returned [OF keys] this' show ?thesis
    by (simp add: findCommand_def)
qed

lemma registerAll_Returned:
  "registerAll regs this = Returned final \<Longrightarrow>
     (\<forall>k d. findCommand this k = Some d \<longrightarrow> findCommand final k = Some d) \<and>
     (\<forall>(command, name, aliases) \<in> set regs.
        \<forall>k \<in> set (name # aliases). findCommand final k = Some command)"
proof (induction regs arbitrary: this)
  case Nil
  then show ?case by simp
next
  case (Cons reg regs)
  obtain command name aliases where reg: "reg = (command, name, aliases)"
    by (cases reg) auto
  from Cons.prems reg obtain this' where
    first: "registerCommand this command name aliases = Returned this'"
    and rest: "registerAll regs this' = Returned final"
    by (auto split: outcome.splits)
  note one = registerCommand_Returned [OF first]
  note more = Cons.IH [OF rest]
  from one more have "\<forall>k d. findCommand this k = Some d \<longrightarrow> findCommand final k = Some d"
    by blast
  moreover from one more
  have "\<forall>k \<in> set (name # aliases). findCommand final k = Some command"
    by blast
  ultimately show ?case using more reg by auto
qed

text \<open>
  C4. After a startup that registered every command of a list without aborting, the name of
  each command of the list and each of its aliases are found, and all of them resolve to
  the address of that command: what an alias resolves to is what the name resolves to.
\<close>

theorem findCommand_same_instance:
  assumes "registerAll regs newCommandRegistry = Returned registry"
    and "(command, name, aliases) \<in> set regs"
  shows "findCommand registry name = Some command \<and>
         (\<forall>alias \<in> set aliases.
            findCommand registry alias = Some command \<and>
            findCommand registry alias = findCommand registry name)"
  using registerAll_Returned [OF assms(1)] assms(2) by auto

theorem findCommand_same_instance_witness:
  "findCommand startupRegistry ''find'' = Some 1 \<and>
   findCommand startupRegistry ''query'' = Some 1 \<and>
   findCommand startupRegistry ''query'' = findCommand startupRegistry ''find''"
proof -
  have h1: "registerAll startupCommands newCommandRegistry = Returned startupRegistry"
    by (simp add: startupCommands_def newCommandRegistry_def startupRegistry_def
          registerCommand_def)
  have h2: "(1, ''find'', [''query'']) \<in> set startupCommands"
    by (simp add: startupCommands_def)
  show ?thesis
    using findCommand_same_instance [OF h1 h2] by simp
qed

subsection \<open>The dispatcher\<close>

lemma beforeExecution_without_write_concern:
  assumes "\<not> supportsWriteConcern invocation"
  shows "beforeExecution invocation level opCtx request =
           (case doCheckAuthorization invocation opCtx of
              (Returned u, opCtx') \<Rightarrow>
                (Threw (Status InvalidOptions ''write concern not supported''),
                 [Created, AuthorizationChecked, Failed], opCtx')
            | (Threw e, opCtx') \<Rightarrow> (Threw e, [Created, Failed], opCtx')
            | (Aborted, opCtx') \<Rightarrow> (Aborted, [Created], opCtx'))"
  using assms
  by (simp add: beforeExecution_def checkAuthorization_def negotiateConcerns_def
        uasserted_def split: prod.splits outcome.splits)

text \<open>
  C3. For an invocation whose \<^verbatim>\<open>supportsWriteConcern\<close> is false, on the blocking and on
  the asynchronous path: the dispatcher never returns normally and never enters the state
  Running; its whole result is the same whatever \<^verbatim>\<open>run\<close> and \<^verbatim>\<open>runAsync\<close> of the
  invocation are, so neither is called; the reply is untouched; and when authorization
  has succeeded the failure is \<^verbatim>\<open>InvalidOptions\<close>.
\<close>

theorem dispatch_never_runs_without_write_concern:
  assumes "\<not> supportsWriteConcern invocation"
  shows "dispatch onBefore onAfter level (invocation\<lparr>run := r, runAsync_override := a\<rparr>)
             opCtx request reply
           = dispatch onBefore onAfter level invocation opCtx request reply \<and>
         dispatchAsync onBefore onAfter level (invocation\<lparr>run := r, runAsync_override := a\<rparr>)
             rec
           = dispatchAsync onBefore onAfter level invocation rec \<and>
         Running \<notin> set (fst (snd (dispatch onBefore onAfter level invocation opCtx request
                                     reply))) \<and>
         Running \<notin> set (fst (snd (dispatchAsync onBefore onAfter level invocation rec))) \<and>
         (\<forall>u. fst (dispatch onBefore onAfter level invocation opCtx request reply)
                 \<noteq> Returned u) \<and>
         (\<forall>u. fst (dispatchAsync onBefore onAfter level invocation rec) \<noteq> Returned u) \<and>
         snd (snd (snd (dispatch onBefore onAfter level invocation opCtx request reply)))
           = reply \<and>
         getReplyBuilder (snd (snd (dispatchAsync onBefore onAfter level invocation rec)))
           = getReplyBuilder rec \<and>
         (fst (checkAuthorization invocation (onBefore opCtx) request) = Returned () \<longrightarrow>
            (\<exists>msg. fst (dispatch onBefore onAfter level invocation opCtx request reply)
                      = Threw (Status InvalidOptions msg))) \<and>
         (fst (checkAuthorization invocation (onBefore (getOpCtx rec)) (getRequest rec))
            = Returned () \<longrightarrow>
            (\<exists>msg. fst (dispatchAsync onBefore onAfter level invocation rec)
                      = Threw (Status InvalidOptions msg)))"
proof -
  have quiet: "\<not> supportsWriteConcern (invocation\<lparr>run := r, runAsync_override := a\<rparr>)"
    using assms by simp
  note before = beforeExecution_without_write_concern [OF assms]
  note before' = beforeExecution_without_write_concern [OF quiet]
  have same: "dispatch onBefore onAfter level (invocation\<lparr>run := r, runAsync_override := a\<rparr>)
                  opCtx request reply
                = dispatch onBefore onAfter level invocation opCtx request reply"
    by (simp add: dispatch_def before before' split: prod.splits outcome.splits)
  have same_async:
    "dispatchAsync onBefore onAfter level (invocation\<lparr>run := r, runAsync_override := a\<rparr>) rec
       = dispatchAsync onBefore onAfter level invocation rec"
    by (simp add: dispatchAsync_def before before' split: prod.splits outcome.splits)
  have sync: "Running \<notin> set (fst (snd (dispatch onBefore onAfter level invocation opCtx
                                          request reply))) \<and>
              (\<forall>u. fst (dispatch onBefore onAfter level invocation opCtx request reply)
                      \<noteq> Returned u) \<and>
              snd (snd (snd (dispatch onBefore onAfter level invocation opCtx request reply)))
                = reply \<and>
              (fst (checkAuthorization invocation (onBefore opCtx) request) = Returned () \<longrightarrow>
                 (\<exists>msg. fst (dispatch onBefore onAfter level invocation opCtx request reply)
                           = Threw (Status InvalidOptions msg)))"
    by (simp add: dispatch_def before checkAuthorization_def split: prod.splits outcome.splits)
  have async: "Running \<notin> set (fst (snd (dispatchAsync onBefore onAfter level invocation rec))) \<and>
               (\<forall>u. fst (dispatchAsync onBefore onAfter level invocation rec) \<noteq> Returned u) \<and>
               getReplyBuilder (snd (snd (dispatchAsync onBefore onAfter level invocation rec)))
                 = getReplyBuilder rec \<and>
               (fst (checkAuthorization invocation (onBefore (getOpCtx rec)) (getRequest rec))
                  = Returned () \<longrightarrow>
                  (\<exists>msg. fst (dispatchAsync onBefore onAfter level invocation rec)
                            = Threw (Status InvalidOptions msg)))"
    by (simp add: dispatchAsync_def before checkAuthorization_def
          split: prod.splits outcome.splits)
  from same same_async sync async show ?thesis by blast
qed

theorem dispatch_never_runs_without_write_concern_witness:
  "dispatch id id kLocalReadConcern
       (pingInvocation\<lparr>run := (\<lambda>opCtx reply. (Aborted, opCtx, reply)),
                       runAsync_override := Some (\<lambda>rec. (Returned Pending, rec))\<rparr>)
       0 \<lparr>body = []\<rparr> []
     = dispatch id id kLocalReadConcern pingInvocation 0 \<lparr>body = []\<rparr> [] \<and>
   Running \<notin> set (fst (snd (dispatch id id kLocalReadConcern pingInvocation 0
                               \<lparr>body = []\<rparr> []))) \<and>
   Running \<notin> set (fst (snd (dispatchAsync id id kLocalReadConcern pingInvocation
                               (requestContext [] ''ping'')))) \<and>
   (\<exists>msg. fst (dispatch id id kLocalReadConcern pingInvocation 0 \<lparr>body = []\<rparr> [])
             = Threw (Status InvalidOptions msg))"
proof -
  have h1: "\<not> supportsWriteConcern pingInvocation"
    by (simp add: pingInvocation_def)
  have h2: "fst (checkAuthorization pingInvocation (id 0) \<lparr>body = []\<rparr>) = Returned ()"
    by (simp add: checkAuthorization_def pingInvocation_def)
  show ?thesis
    using dispatch_never_runs_without_write_concern
            [where invocation = pingInvocation and onBefore = id and onAfter = id
               and level = kLocalReadConcern
               and r = "\<lambda>opCtx reply. (Aborted, opCtx, reply)"
               and a = "Some (\<lambda>rec. (Returned Pending, rec))"
               and opCtx = 0 and request = "\<lparr>body = []\<rparr>" and reply = "[]"
               and rec = "requestContext [] ''ping''", OF h1]
          h2
    by simp
qed

end
